theory Spec2Isabelle
  imports Complex_Main
begin

section \<open>Python values, exceptions and results\<close>

text \<open>
  The module \<open>modules/utils_io.py\<close> validates labelled arrays (xarray) before they are
  handed to an autoregressive (AR) model. Every function either returns or raises; a
  call is modelled as a value of \<open>error + 'a\<close>, \<open>Inl\<close> carrying the exception.
  An exception is its class, the message template of the \<open>raise\<close> statement and the
  arguments of \<open>str.format\<close>, if any.
\<close>

datatype exc = ValueError | TypeError | KeyError | IndexError | NameError

datatype error = Raise exc string "string list"

fun exc_of :: "error \<Rightarrow> exc" where
  "exc_of (Raise c m as) = c"

text \<open>Sequencing of two fallible steps: the second runs only if the first returned.\<close>

definition and_then :: "error + 'a \<Rightarrow> ('a \<Rightarrow> error + 'b) \<Rightarrow> error + 'b" where
  "and_then m f = (case m of Inl e \<Rightarrow> Inl e | Inr x \<Rightarrow> f x)"

text \<open>A list comprehension whose element expression may raise: the first raise wins.\<close>

fun comprehension :: "('a \<Rightarrow> error + 'b) \<Rightarrow> 'a list \<Rightarrow> error + 'b list" where
  "comprehension f [] = Inr []"
| "comprehension f (x # xs) =
     (case f x of Inl e \<Rightarrow> Inl e
      | Inr y \<Rightarrow> (case comprehension f xs of Inl e \<Rightarrow> Inl e | Inr ys \<Rightarrow> Inr (y # ys)))"

text \<open>
  A Python argument that the code tests with \<open>is None\<close> and \<open>isinstance\<close>: it is
  \<open>None\<close>, an object of the expected class, or an object of some other class.
\<close>

datatype 'a arg = PyNone | Obj 'a | Other

fun is_None :: "'a arg \<Rightarrow> bool" where
  "is_None PyNone = True"
| "is_None _ = False"

fun isinstance :: "'a arg \<Rightarrow> bool" where
  "isinstance (Obj x) = True"
| "isinstance _ = False"

section \<open>numpy arrays and xarray objects\<close>

text \<open>
  A one-dimensional numpy array is its dtype and its elements. \<open>datetime64\<close> values are
  the integer number of ticks since the epoch. \<open>tolist\<close> gives the Python scalars.
\<close>

datatype ndarray = Datetime64Array "int list" | StrArray "string list" | IntArray "int list"

datatype scalar = PyDatetime int | PyStr string | PyInt int

fun tolist :: "ndarray \<Rightarrow> scalar list" where
  "tolist (Datetime64Array xs) = map PyDatetime xs"
| "tolist (StrArray xs) = map PyStr xs"
| "tolist (IntArray xs) = map PyInt xs"

fun len_ndarray :: "ndarray \<Rightarrow> nat" where
  "len_ndarray (Datetime64Array xs) = length xs"
| "len_ndarray (StrArray xs) = length xs"
| "len_ndarray (IntArray xs) = length xs"

text \<open>
  Of an \<open>xarray.DataArray\<close> the code reads the tuple of dimension names \<open>da.dims\<close> and,
  for a dimension name, the one-dimensional index \<open>da[name]\<close> along it (for a dimension
  without a coordinate of its own, xarray returns the default index \<open>0 .. n-1\<close>). The
  array is modelled by its dimensions in their order, each with its index; the names of
  the dimensions of an array are distinct. Subscripting with a name that is no
  dimension raises KeyError (coordinates that are not dimensions are left out: the code
  reads \<open>'time'\<close>, \<open>'node'\<close> and \<open>'feature'\<close> only).
\<close>

record DataArray =
  axes :: "(string \<times> ndarray) list"

definition dims :: "DataArray \<Rightarrow> string list" where
  "dims da = map fst (axes da)"

definition getitem :: "DataArray \<Rightarrow> string \<Rightarrow> error + ndarray" where
  "getitem da name =
     (case map_of (axes da) name of
        None \<Rightarrow> Inl (Raise KeyError name [])
      | Some a \<Rightarrow> Inr a)"

text \<open>
  Floating point data are classified only: a value is finite, NaN or an infinity.
\<close>

datatype float = Finite real | NaN | PosInf | NegInf

fun isnan :: "float \<Rightarrow> bool" where
  "isnan NaN = True"
| "isnan _ = False"

fun isinf :: "float \<Rightarrow> bool" where
  "isinf PosInf = True"
| "isinf NegInf = True"
| "isinf _ = False"

text \<open>
  Of an \<open>xarray.Dataset\<close> the code reads the dimension names \<open>ds.dims.keys()\<close>, the
  index \<open>ds[name]\<close> along a dimension, and the data variables, in their order, each
  with its values.
\<close>

record Dataset =
  ds_axes :: "(string \<times> ndarray) list"
  data_vars :: "(string \<times> float list) list"

definition ds_dims :: "Dataset \<Rightarrow> string list" where
  "ds_dims ds = map fst (ds_axes ds)"

definition ds_getitem :: "Dataset \<Rightarrow> string \<Rightarrow> error + ndarray" where
  "ds_getitem ds name =
     (case map_of (ds_axes ds) name of
        None \<Rightarrow> Inl (Raise KeyError name [])
      | Some a \<Rightarrow> Inr a)"

section \<open>Checks on dimension names\<close>

text \<open>
  \<open>np.array(required_dimnames)[np.isin(required_dimnames, da_dims, invert=True)]\<close>:
  the required names that are not dimensions, in the order of \<open>required_dimnames\<close>.
\<close>

definition missing_dims :: "string list \<Rightarrow> string list \<Rightarrow> string list" where
  "missing_dims required_dimnames da_dims =
     filter (\<lambda>r. r \<notin> set da_dims) required_dimnames"

definition check_dimnames_DataArray ::
  "DataArray arg \<Rightarrow> string list arg \<Rightarrow> string arg \<Rightarrow> error + unit" where
  "check_dimnames_DataArray da required_dimnames da_name =
     (case da_name of
        Obj nm \<Rightarrow>
          (case da of
             Obj d \<Rightarrow>
               (case required_dimnames of
                  Obj req \<Rightarrow>
                    (if length (missing_dims req (dims d)) > 0
                     then Inl (Raise ValueError ''The {} must have also the '{}' dimension''
                                 (nm # missing_dims req (dims d)))
                     else Inr ())
                | _ \<Rightarrow> Inl (Raise TypeError '''required_dimnames' must be a list'' []))
           | _ \<Rightarrow> Inl (Raise TypeError '''da' must be an xarray DataArray'' []))
      | _ \<Rightarrow> Inl (Raise TypeError '''da_name' must be a string.'' []))"

definition check_dimnames_Dataset ::
  "Dataset arg \<Rightarrow> string list arg \<Rightarrow> string arg \<Rightarrow> error + unit" where
  "check_dimnames_Dataset ds required_dimnames ds_name =
     (case ds_name of
        Obj nm \<Rightarrow>
          (case ds of
             Obj d \<Rightarrow>
               (case required_dimnames of
                  Obj req \<Rightarrow>
                    (if length (missing_dims req (ds_dims d)) > 0
                     then Inl (Raise ValueError ''The {} must have also the '{}' dimension''
                                 (nm # missing_dims req (ds_dims d)))
                     else Inr ())
                | _ \<Rightarrow> Inl (Raise TypeError '''required_dimnames' must be a list'' []))
           | _ \<Rightarrow> Inl (Raise TypeError '''ds' must be an xarray Dataset'' []))
      | _ \<Rightarrow> Inl (Raise TypeError '''ds_name' must be a string.'' []))"

text \<open>
  \<open>_check_AR_DataArray_dimnames(da_dynamic, da_bc, da_static)\<close>: the dynamic array is
  checked first, then the static one, then the boundary conditions.
\<close>

definition check_AR_DataArray_dimnames ::
  "DataArray arg \<Rightarrow> DataArray arg \<Rightarrow> DataArray arg \<Rightarrow> error + unit" where
  "check_AR_DataArray_dimnames da_dynamic da_bc da_static =
     and_then
       (if \<not> is_None da_dynamic
        then check_dimnames_DataArray da_dynamic (Obj [''time'', ''node'', ''feature''])
               (Obj ''dynamic DataArray'')
        else Inr ())
       (\<lambda>_. and_then
          (if \<not> is_None da_static
           then check_dimnames_DataArray da_static (Obj [''node'', ''feature''])
                  (Obj ''static DataArray'')
           else Inr ())
          (\<lambda>_. if \<not> is_None da_bc
               then check_dimnames_DataArray da_bc (Obj [''time'', ''node'', ''feature''])
                      (Obj ''bc DataArray'')
               else Inr ()))"

definition check_AR_Dataset_dimnames ::
  "Dataset arg \<Rightarrow> Dataset arg \<Rightarrow> Dataset arg \<Rightarrow> error + unit" where
  "check_AR_Dataset_dimnames ds_dynamic ds_bc ds_static =
     and_then
       (if \<not> is_None ds_dynamic
        then check_dimnames_Dataset ds_dynamic (Obj [''time'', ''node'']) (Obj ''dynamic Dataset'')
        else Inr ())
       (\<lambda>_. and_then
          (if \<not> is_None ds_static
           then check_dimnames_Dataset ds_static (Obj [''node'']) (Obj ''static Dataset'')
           else Inr ())
          (\<lambda>_. if \<not> is_None ds_bc
               then check_dimnames_Dataset ds_bc (Obj [''time'', ''node'']) (Obj ''bc Dataset'')
               else Inr ()))"

section \<open>Checks on the time axis\<close>

text \<open>
  The argument of \<open>_check_timesteps\<close> is any Python object. The code tells apart: a
  \<open>str\<close> (with the value \<open>np.datetime64\<close> makes of it, \<open>None\<close> when numpy cannot
  parse it and raises ValueError), \<open>None\<close>, a single \<open>np.datetime64\<close> or
  \<open>datetime.datetime\<close>, a list (each item a datetime or not), a one-dimensional numpy
  array, and any other object (with its \<open>len\<close>, if it has one).
\<close>

datatype list_item = DatetimeItem int | OtherItem

datatype timesteps =
    TsStr string "int option"
  | TsNone
  | TsDatetime int
  | TsList "list_item list"
  | TsArray ndarray
  | TsOther "nat option"

fun is_datetime :: "list_item \<Rightarrow> bool" where
  "is_datetime (DatetimeItem t) = True"
| "is_datetime OtherItem = False"

fun datetimes_of :: "list_item list \<Rightarrow> int list" where
  "datetimes_of [] = []"
| "datetimes_of (DatetimeItem t # xs) = t # datetimes_of xs"
| "datetimes_of (OtherItem # xs) = datetimes_of xs"

text \<open>
  The builtin \<open>len\<close>: datetime scalars, \<open>None\<close> and objects without \<open>__len__\<close> raise
  TypeError.
\<close>

fun py_len :: "timesteps \<Rightarrow> error + nat" where
  "py_len (TsStr s p) = Inr (length s)"
| "py_len (TsList xs) = Inr (length xs)"
| "py_len (TsArray a) = Inr (len_ndarray a)"
| "py_len (TsOther (Some n)) = Inr n"
| "py_len _ = Inl (Raise TypeError ''object of type '{}' has no len()'' [])"

text \<open>
  \<open>_check_timesteps\<close> returns a numpy array of datetime64 values, modelled by the list
  of its values. The tests run in the order of the source: \<open>str\<close>, \<open>None\<close>, the
  length, and only then the classes of the remaining \<open>if\<close>/\<open>elif\<close> chain.
\<close>

definition check_timesteps :: "timesteps \<Rightarrow> error + int list" where
  "check_timesteps timesteps =
     (case timesteps of
        TsStr s p \<Rightarrow>
          (case p of
             None \<Rightarrow> Inl (Raise ValueError ''Error parsing datetime string'' [s])
           | Some t \<Rightarrow> Inr [t])
      | TsNone \<Rightarrow> Inl (Raise ValueError '''timesteps' is None.'' [])
      | _ \<Rightarrow>
          and_then (py_len timesteps) (\<lambda>n.
            if n = 0 then Inl (Raise ValueError '''timesteps' is empty.'' [])
            else (case timesteps of
                    TsDatetime t \<Rightarrow> Inr [t]
                  | TsList xs \<Rightarrow>
                      (if list_all is_datetime xs then Inr (datetimes_of xs)
                       else Inl (Raise ValueError
                         ''The list must contain np.datetime64 or datetime.datetime objects.'' []))
                  | TsArray a \<Rightarrow>
                      (case a of
                         Datetime64Array xs \<Rightarrow> Inr xs
                       | _ \<Rightarrow> Inl (Raise ValueError
                           ''The numpy array must contain datetime objects.'' []))
                  | _ \<Rightarrow> Inl (Raise ValueError ''Unvalid timesteps specification.'' []))))"

text \<open>\<open>np.diff\<close>: the differences of consecutive elements.\<close>

fun np_diff :: "int list \<Rightarrow> int list" where
  "np_diff (x # y # xs) = (y - x) # np_diff (y # xs)"
| "np_diff _ = []"

text \<open>
  \<open>np.unique(dt, return_counts=True)\<close>: the distinct values in increasing order, and
  how often each occurs.
\<close>

definition np_unique :: "int list \<Rightarrow> int list \<times> nat list" where
  "np_unique dt = (let dts = sort (remdups dt) in (dts, map (count_list dt) dts))"

text \<open>Indexing a sequence with a non-negative index: IndexError out of range.\<close>

definition index :: "'a list \<Rightarrow> nat \<Rightarrow> error + 'a" where
  "index xs i =
     (if i < length xs then Inr (xs ! i)
      else Inl (Raise IndexError ''index {} is out of bounds'' []))"

text \<open>
  The loop that reports the gaps (lines 75 to 81): for each difference that is not the
  most frequent one, and each position \<open>bad_idx\<close> where it occurs, the two timesteps
  \<open>timesteps[bad_idx:(bad_idx+2)]\<close> are read and printed. The model returns the pairs
  it would print.
\<close>

definition missing_between ::
  "int list \<Rightarrow> int list \<Rightarrow> int list \<Rightarrow> nat list \<Rightarrow> error + (int \<times> int) list list" where
  "missing_between timesteps dt dts counts =
     (let bad_dts = map fst (filter (\<lambda>(d, c). c \<noteq> Max (set counts)) (zip dts counts))
      in comprehension (\<lambda>bad_dt.
           let bad_idxs = filter (\<lambda>i. dt ! i = bad_dt) [0 ..< length dt]
           in comprehension (\<lambda>bad_idx.
                let tt_missings = take 2 (drop bad_idx timesteps)
                in and_then (index tt_missings 0) (\<lambda>t0.
                   and_then (index tt_missings 1) (\<lambda>t1. Inr (t0, t1))))
              bad_idxs)
         bad_dts)"

text \<open>
  \<open>check_no_missing_timesteps\<close>. \<open>verbose\<close> only adds two \<open>print\<close> calls of the first
  and the last timestep, which exist once the array is not empty; printing is left out.
\<close>

definition check_no_missing_timesteps :: "timesteps \<Rightarrow> bool \<Rightarrow> error + unit" where
  "check_no_missing_timesteps timesteps verbose =
     and_then (check_timesteps timesteps) (\<lambda>ts.
       if length ts = 0 then Inl (Raise ValueError ''No data available !'' [])
       else
         (let dt = np_diff ts; (dts, counts) = np_unique dt
          in if length counts > 1
             then and_then (missing_between ts dt dts counts)
                    (\<lambda>_. Inl (Raise ValueError ''The process has been interrupted'' []))
             else Inr ()))"

section \<open>Finite values\<close>

text \<open>
  The names of the data variables \<open>var\<close> with \<open>ds_is[var].sum().values != 0\<close>, where
  \<open>ds_is\<close> is the Dataset of the elementwise test \<open>p\<close>.
\<close>

definition vars_with :: "(float \<Rightarrow> bool) \<Rightarrow> (string \<times> float list) list \<Rightarrow> string list" where
  "vars_with p vs = map fst (filter (\<lambda>(var, xs). length (filter p xs) \<noteq> 0) vs)"

definition check_finite_Dataset :: "Dataset arg \<Rightarrow> error + unit" where
  "check_finite_Dataset ds =
     (case ds of
        Obj d \<Rightarrow>
          (let list_vars_with_nan = vars_with isnan (data_vars d)
           in if list_vars_with_nan \<noteq> []
              then Inl (Raise ValueError ''The variables {} contain NaN values'' list_vars_with_nan)
              else
                (let list_vars_with_inf = vars_with isinf (data_vars d)
                 in if list_vars_with_inf \<noteq> []
                    then Inl (Raise ValueError ''The variables {} contain Inf values.''
                                list_vars_with_inf)
                    else Inr ()))
      | _ \<Rightarrow> Inl (Raise TypeError '''ds' must be an xarray Dataset.'' []))"

section \<open>Dimension information of an AR model\<close>

text \<open>
  The dictionary \<open>dim_info\<close> returned by \<open>get_AR_model_diminfo\<close>. The four entries
  \<open>input_time_dim\<close>, \<open>output_time_dim\<close>, \<open>input_shape\<close> and \<open>output_shape\<close> are keys
  of the dictionary only when \<open>AR_settings\<close> is given; an absent key is \<open>None\<close> here,
  so that equality of records is equality of the dictionaries.
\<close>

record dim_info =
  input_feature_dim :: nat
  output_feature_dim :: nat
  input_features :: "scalar list"
  output_features :: "scalar list"
  input_time_dim :: "nat option"
  output_time_dim :: "nat option"
  input_node_dim :: nat
  output_node_dim :: nat
  dim_order :: "string list"
  input_shape :: "nat list option"
  output_shape :: "nat list option"

text \<open>
  \<open>AR_settings\<close> is a dictionary; the code reads its lists \<open>'input_k'\<close> and
  \<open>'output_k'\<close>. Subscripting a dictionary with a missing key raises KeyError.
\<close>

type_synonym settings = "(string \<times> int list) list"

definition dict_getitem :: "(string \<times> 'v) list \<Rightarrow> string \<Rightarrow> error + 'v" where
  "dict_getitem d k =
     (case map_of d k of
        None \<Rightarrow> Inl (Raise KeyError k [])
      | Some v \<Rightarrow> Inr v)"

text \<open>
  The variables of an optional array (static, boundary conditions): its dimension names
  are checked, then its \<open>'feature'\<close> coordinate is read; an absent array has none.
\<close>

definition optional_variables ::
  "DataArray arg \<Rightarrow> string list \<Rightarrow> string \<Rightarrow> error + (string list option \<times> scalar list)" where
  "optional_variables da required_dimnames da_name =
     (if \<not> is_None da
      then and_then (check_dimnames_DataArray da (Obj required_dimnames) (Obj da_name)) (\<lambda>_.
             case da of
               Obj d \<Rightarrow> and_then (getitem d ''feature'') (\<lambda>f. Inr (Some (dims d), tolist f))
             | _ \<Rightarrow> Inl (Raise TypeError '''da' must be an xarray DataArray'' []))
      else Inr (None, []))"

text \<open>
  \<open>get_AR_model_diminfo(da_dynamic, da_static, da_bc, AR_settings)\<close>, statement by
  statement. Line 380 builds \<open>output_shape\<close> from \<open>dim_input\<close>, as the source does;
  \<open>dim_output\<close> is built and not read.
\<close>

definition get_AR_model_diminfo ::
  "DataArray arg \<Rightarrow> DataArray arg \<Rightarrow> DataArray arg \<Rightarrow> settings option \<Rightarrow> error + dim_info" where
  "get_AR_model_diminfo da_dynamic da_static da_bc AR_settings =
     (case da_dynamic of
        Obj dyn \<Rightarrow>
          and_then (check_dimnames_DataArray da_dynamic (Obj [''time'', ''node'', ''feature''])
                      (Obj ''dynamic DataArray'')) (\<lambda>_.
          and_then (getitem dyn ''feature'') (\<lambda>f.
          let dynamic_variables = tolist f;
              n_dynamic_variables = length dynamic_variables;
              dims_dynamic = dims dyn
          in
          and_then (optional_variables da_static [''node'', ''feature''] ''static DataArray'')
            (\<lambda>(dims_static, static_variables).
          let n_static_variables = length static_variables in
          and_then (optional_variables da_bc [''time'', ''node'', ''feature''] ''bc DataArray'')
            (\<lambda>(dims_bc, bc_variables).
          let n_bc_variables = length bc_variables in
          if dims_bc \<noteq> None \<and> dims_bc \<noteq> Some dims_dynamic
          then Inl (Raise ValueError
                 ''Dimension order of dynamic and bc DataArrays must be equal.'' [])
          else
          let input_feature_dim' = n_static_variables + n_bc_variables + n_dynamic_variables;
              output_feature_dim' = n_dynamic_variables;
              input_features' = static_variables @ bc_variables @ dynamic_variables;
              output_features' = dynamic_variables
          in
          and_then (getitem dyn ''node'') (\<lambda>node.
          let input_node_dim' = len_ndarray node;
              output_node_dim' = len_ndarray node;
              dim_order' = ''sample'' # dims dyn
          in
          (case AR_settings of
            None \<Rightarrow>
              Inr \<lparr> input_feature_dim = input_feature_dim',
                    output_feature_dim = output_feature_dim',
                    input_features = input_features',
                    output_features = output_features',
                    input_time_dim = None,
                    output_time_dim = None,
                    input_node_dim = input_node_dim',
                    output_node_dim = output_node_dim',
                    dim_order = dim_order',
                    input_shape = None,
                    output_shape = None \<rparr>
          | Some settings \<Rightarrow>
              and_then (dict_getitem settings ''input_k'') (\<lambda>input_k.
              and_then (dict_getitem settings ''output_k'') (\<lambda>output_k.
              let input_time_dim' = length input_k;
                  output_time_dim' = length output_k;
                  dim_input = [(''node'', input_node_dim'), (''time'', input_time_dim'),
                               (''feature'', input_feature_dim')]
              in
              and_then (comprehension (dict_getitem dim_input) (tl dim_order')) (\<lambda>input_shape'.
              let dim_output = [(''node'', output_node_dim'), (''time'', output_time_dim'),
                                (''feature'', output_feature_dim')]
              in
              and_then (comprehension (dict_getitem dim_input) (tl dim_order')) (\<lambda>output_shape'.
              Inr \<lparr> input_feature_dim = input_feature_dim',
                    output_feature_dim = output_feature_dim',
                    input_features = input_features',
                    output_features = output_features',
                    input_time_dim = Some input_time_dim',
                    output_time_dim = Some output_time_dim',
                    input_node_dim = input_node_dim',
                    output_node_dim = output_node_dim',
                    dim_order = dim_order',
                    input_shape = Some input_shape',
                    output_shape = Some output_shape' \<rparr>))))))))))
      | _ \<Rightarrow> Inl (Raise ValueError ''The dynamic DataArray is necessary for AR models.'' []))"

section \<open>Checks on the arrays of an AR model\<close>

text \<open>
  \<open>a == b\<close> on two one-dimensional numpy arrays. Arrays of the same length are compared
  element by element; an array of length one is broadcast against the other. When the
  shapes cannot be broadcast, numpy before version 1.25 returns the Python value
  \<open>False\<close> (with a DeprecationWarning), and numpy from 1.25 on raises ValueError. The
  numpy in use is a parameter of the model.
\<close>

datatype numpy = Legacy | Modern

datatype comparison = BoolArray "bool list" | PyFalse

definition np_eq :: "numpy \<Rightarrow> 'a list \<Rightarrow> 'a list \<Rightarrow> error + comparison" where
  "np_eq np a b =
     (if length a = length b then Inr (BoolArray (map (\<lambda>(x, y). x = y) (zip a b)))
      else if length a = 1 then Inr (BoolArray (map (\<lambda>y. hd a = y) b))
      else if length b = 1 then Inr (BoolArray (map (\<lambda>x. x = hd b) a))
      else (case np of
              Legacy \<Rightarrow> Inr PyFalse
            | Modern \<Rightarrow> Inl (Raise ValueError
                ''operands could not be broadcast together with shapes {} {}'' [])))"

text \<open>\<open>np.all\<close> accepts an array and a scalar.\<close>

fun np_all :: "comparison \<Rightarrow> bool" where
  "np_all (BoolArray bs) = list_all (\<lambda>b. b) bs"
| "np_all PyFalse = False"

text \<open>The builtin \<open>all\<close> iterates over its argument: a \<open>bool\<close> is not iterable.\<close>

fun py_all :: "comparison \<Rightarrow> error + bool" where
  "py_all (BoolArray bs) = Inr (list_all (\<lambda>b. b) bs)"
| "py_all PyFalse = Inl (Raise TypeError '''bool' object is not iterable'' [])"

text \<open>\<open>da['time'].values\<close>; subscripting \<open>None\<close> raises TypeError.\<close>

definition time_values :: "DataArray arg \<Rightarrow> error + ndarray" where
  "time_values da =
     (case da of
        Obj d \<Rightarrow> getitem d ''time''
      | _ \<Rightarrow> Inl (Raise TypeError ''object is not subscriptable'' []))"

definition ds_time_values :: "Dataset arg \<Rightarrow> error + ndarray" where
  "ds_time_values ds =
     (case ds of
        Obj d \<Rightarrow> ds_getitem d ''time''
      | _ \<Rightarrow> Inl (Raise TypeError ''object is not subscriptable'' []))"

text \<open>
  \<open>check_AR_DataArrays(da_training_dynamic, da_validation_dynamic, da_training_bc,
  da_validation_bc, da_static, verbose)\<close>, in the order of the source.
\<close>

definition check_AR_DataArrays ::
  "numpy \<Rightarrow> DataArray arg \<Rightarrow> DataArray arg \<Rightarrow> DataArray arg \<Rightarrow> DataArray arg \<Rightarrow>
   DataArray arg \<Rightarrow> bool \<Rightarrow> error + unit" where
  "check_AR_DataArrays np da_training_dynamic da_validation_dynamic da_training_bc
     da_validation_bc da_static verbose =
     (if \<not> isinstance da_training_dynamic
      then Inl (Raise ValueError ''The dynamic DataArray is necessary for AR models.'' [])
      else if \<not> is_None da_validation_bc \<and> \<not> isinstance da_validation_dynamic
      then Inl (Raise ValueError
             ''The validation dynamic DataArray is necessary for AR models.'' [])
      else
      and_then (check_AR_DataArray_dimnames da_training_dynamic da_training_bc da_static) (\<lambda>_.
      and_then (check_AR_DataArray_dimnames da_validation_dynamic da_validation_bc da_static) (\<lambda>_.
      and_then
        (if \<not> is_None da_validation_dynamic \<and> \<not> is_None da_training_bc \<and> is_None da_validation_bc
         then Inl (Raise ValueError
           ''If boundary conditions data are provided for the training, must be provided also for validation!'' [])
         else Inr ()) (\<lambda>_.
      and_then (and_then (time_values da_training_dynamic)
                  (\<lambda>t. check_no_missing_timesteps (TsArray t) verbose)) (\<lambda>_.
      and_then
        (if \<not> is_None da_validation_dynamic
         then and_then (time_values da_validation_dynamic)
                (\<lambda>t. check_no_missing_timesteps (TsArray t) verbose)
         else Inr ()) (\<lambda>_.
      and_then
        (if \<not> is_None da_training_bc
         then and_then (time_values da_training_bc)
                (\<lambda>t. check_no_missing_timesteps (TsArray t) False)
         else Inr ()) (\<lambda>_.
      and_then
        (if \<not> is_None da_validation_bc
         then and_then (time_values da_validation_bc)
                (\<lambda>t. check_no_missing_timesteps (TsArray t) False)
         else Inr ()) (\<lambda>_.
      and_then
        (if \<not> is_None da_training_bc
         then and_then (time_values da_training_dynamic) (\<lambda>a.
              and_then (time_values da_training_bc) (\<lambda>b.
              and_then (np_eq np (tolist a) (tolist b)) (\<lambda>same.
              let all_same_timesteps = np_all same in
              if \<not> all_same_timesteps
              then Inl (Raise ValueError
                ''The training dynamic DataArray and the training boundary conditions DataArray does not have the same timesteps!'' [])
              else Inr ())))
         else Inr ()) (\<lambda>_.
      and_then
        (if \<not> is_None da_validation_dynamic \<and> \<not> is_None da_validation_bc
         then and_then (time_values da_validation_dynamic) (\<lambda>a.
              and_then (time_values da_validation_bc) (\<lambda>b.
              and_then (np_eq np (tolist a) (tolist b)) (\<lambda>same.
              let all_same_timesteps = np_all same in
              if \<not> all_same_timesteps
              then Inl (Raise ValueError
                ''The validation dynamic DataArray and the validation boundary conditions DataArray does not have the same timesteps!'' [])
              else Inr ())))
         else Inr ()) (\<lambda>_.
      if \<not> is_None da_validation_dynamic
      then and_then (get_AR_model_diminfo da_training_dynamic da_static da_training_bc None)
             (\<lambda>dim_info_training.
           and_then (get_AR_model_diminfo da_validation_dynamic da_static da_validation_bc None)
             (\<lambda>dim_info_validation.
           if \<not> (dim_info_training = dim_info_validation)
           then Inl (Raise ValueError
             ''The dimension order of training and validation DataArrays do not coincide!'' [])
           else Inr ()))
      else Inr ()))))))))))"

text \<open>
  \<open>check_AR_Datasets(ds_training_dynamic, ds_validation_dynamic, ds_static,
  ds_training_bc, ds_validation_bc, verbose)\<close>. The alignment test here is the builtin
  \<open>all\<close> of the comparison.
\<close>

definition check_AR_Datasets ::
  "numpy \<Rightarrow> Dataset arg \<Rightarrow> Dataset arg \<Rightarrow> Dataset arg \<Rightarrow> Dataset arg \<Rightarrow>
   Dataset arg \<Rightarrow> bool \<Rightarrow> error + unit" where
  "check_AR_Datasets np ds_training_dynamic ds_validation_dynamic ds_static ds_training_bc
     ds_validation_bc verbose =
      and_then (check_AR_Dataset_dimnames ds_training_dynamic ds_training_bc ds_static) (\<lambda>_.
      and_then (check_AR_Dataset_dimnames ds_validation_dynamic ds_validation_bc ds_static) (\<lambda>_.
      and_then
        (if \<not> is_None ds_validation_dynamic \<and> \<not> is_None ds_training_bc \<and> is_None ds_validation_bc
         then Inl (Raise ValueError
           ''If boundary conditions data are provided for the training, must be provided also for validation!'' [])
         else Inr ()) (\<lambda>_.
      and_then (and_then (ds_time_values ds_training_dynamic)
                  (\<lambda>t. check_no_missing_timesteps (TsArray t) verbose)) (\<lambda>_.
      and_then
        (if \<not> is_None ds_validation_dynamic
         then and_then (ds_time_values ds_validation_dynamic)
                (\<lambda>t. check_no_missing_timesteps (TsArray t) verbose)
         else Inr ()) (\<lambda>_.
      and_then
        (if \<not> is_None ds_training_bc
         then and_then (ds_time_values ds_training_bc)
                (\<lambda>t. check_no_missing_timesteps (TsArray t) False)
         else Inr ()) (\<lambda>_.
      and_then
        (if \<not> is_None ds_validation_bc
         then and_then (ds_time_values ds_validation_bc)
                (\<lambda>t. check_no_missing_timesteps (TsArray t) False)
         else Inr ()) (\<lambda>_.
      and_then
        (if \<not> is_None ds_training_bc
         then and_then (ds_time_values ds_training_dynamic) (\<lambda>a.
              and_then (ds_time_values ds_training_bc) (\<lambda>b.
              and_then (np_eq np (tolist a) (tolist b)) (\<lambda>same_timesteps.
              and_then (py_all same_timesteps) (\<lambda>ok.
              if \<not> ok
              then Inl (Raise ValueError
                ''The training dynamic Dataset and the training boundary conditions Dataset does not have the same timesteps!'' [])
              else Inr ()))))
         else Inr ()) (\<lambda>_.
      if \<not> is_None ds_validation_dynamic \<and> \<not> is_None ds_validation_bc
      then and_then (ds_time_values ds_validation_dynamic) (\<lambda>a.
           and_then (ds_time_values ds_validation_bc) (\<lambda>b.
           and_then (np_eq np (tolist a) (tolist b)) (\<lambda>same_timesteps.
           and_then (py_all same_timesteps) (\<lambda>ok.
           if \<not> ok
           then Inl (Raise ValueError
             ''The validation dynamic Dataset and the validation boundary conditions Dataset does not have the same timesteps!'' [])
           else Inr ()))))
      else Inr ()))))))))"

section \<open>The tutorial script\<close>







section \<open>Example inputs\<close>

text \<open>
  Three timesteps six hours apart on two nodes: two dynamic variables, one static
  variable, one boundary condition; three input steps and one output step.
\<close>

definition dynamic_example :: DataArray where
  "dynamic_example =
     \<lparr>axes = [(''time'', Datetime64Array [0, 6, 12]), (''node'', IntArray [0, 1]),
              (''feature'', StrArray [''z500'', ''t850''])]\<rparr>"

definition static_example :: DataArray where
  "static_example =
     \<lparr>axes = [(''node'', IntArray [0, 1]), (''feature'', StrArray [''orog''])]\<rparr>"

definition bc_example :: DataArray where
  "bc_example =
     \<lparr>axes = [(''time'', Datetime64Array [0, 6, 12]), (''node'', IntArray [0, 1]),
              (''feature'', StrArray [''tisr''])]\<rparr>"

definition settings_example :: settings where
  "settings_example = [(''input_k'', [-3, -2, -1]), (''output_k'', [0])]"


text \<open>
  A dynamic array with a single timestep, and boundary conditions with that timestep
  twice; the same as Datasets; and a Dataset pair with two and with three timesteps.
\<close>

definition single_step_example :: DataArray where
  "single_step_example =
     \<lparr>axes = [(''time'', Datetime64Array [0]), (''node'', IntArray [0, 1]),
              (''feature'', StrArray [''z500'', ''t850''])]\<rparr>"

definition repeated_step_example :: DataArray where
  "repeated_step_example =
     \<lparr>axes = [(''time'', Datetime64Array [0, 0]), (''node'', IntArray [0, 1]),
              (''feature'', StrArray [''tisr''])]\<rparr>"

definition ds_single_step_example :: Dataset where
  "ds_single_step_example =
     \<lparr>ds_axes = [(''time'', Datetime64Array [0]), (''node'', IntArray [0, 1])],
      data_vars = [(''z500'', [Finite 1, Finite 2])]\<rparr>"

definition ds_repeated_step_example :: Dataset where
  "ds_repeated_step_example =
     \<lparr>ds_axes = [(''time'', Datetime64Array [0, 0]), (''node'', IntArray [0, 1])],
      data_vars = [(''tisr'', [Finite 0, Finite 0, Finite 0, Finite 0])]\<rparr>"

definition ds_two_steps_example :: Dataset where
  "ds_two_steps_example =
     \<lparr>ds_axes = [(''time'', Datetime64Array [0, 6]), (''node'', IntArray [0, 1])],
      data_vars = [(''z500'', [Finite 1, Finite 2, Finite 3, Finite 4])]\<rparr>"

definition ds_three_steps_example :: Dataset where
  "ds_three_steps_example =
     \<lparr>ds_axes = [(''time'', Datetime64Array [0, 6, 12]), (''node'', IntArray [0, 1])],
      data_vars = [(''tisr'', [Finite 0, Finite 0, Finite 0, Finite 0, Finite 0, Finite 0])]\<rparr>"

section \<open>Vocabulary of the properties\<close>

text \<open>A call raises an exception of class \<open>c\<close>.\<close>

definition raises :: "exc \<Rightarrow> error + 'a \<Rightarrow> bool" where
  "raises c r = (case r of Inl e \<Rightarrow> exc_of e = c | Inr x \<Rightarrow> False)"


section \<open>Properties\<close>

subsection \<open>Auxiliary facts\<close>

lemma and_then_Inr_iff: "and_then m f = Inr y \<longleftrightarrow> (\<exists>x. m = Inr x \<and> f x = Inr y)"
  by (cases m) (simp_all add: and_then_def)

lemma and_then_Inl [simp]: "and_then (Inl e) f = Inl e"
  by (simp add: and_then_def)

lemma and_then_Inr [simp]: "and_then (Inr x) f = f x"
  by (simp add: and_then_def)

lemma missing_dims_empty: "missing_dims req ds = [] \<longleftrightarrow> set req \<subseteq> set ds"
  by (auto simp: missing_dims_def filter_empty_conv)

lemma check_dimnames_DataArray_Obj:
  "check_dimnames_DataArray (Obj da) (Obj req) (Obj nm) =
     (if set req \<subseteq> set (dims da) then Inr ()
      else Inl (Raise ValueError ''The {} must have also the '{}' dimension''
                  (nm # missing_dims req (dims da))))"
  by (simp add: check_dimnames_DataArray_def missing_dims_empty)

lemma getitem_dim: "name \<in> set (dims da) \<Longrightarrow> \<exists>a. getitem da name = Inr a"
  by (auto simp: getitem_def dims_def map_of_eq_None_iff split: option.splits)

lemma getitem_KeyError_iff: "(\<exists>e. getitem da name = Inl e) \<longleftrightarrow> name \<notin> set (dims da)"
  by (simp add: getitem_def dims_def map_of_eq_None_iff [symmetric] split: option.splits)

subsection \<open>Required dimension names\<close>

text \<open>
  Claim C6. For a DataArray, a list of required names and a string name,
  \<open>check_dimnames_DataArray\<close> raises ValueError if and only if some required name is not
  among the dimensions of the array, and returns otherwise. Hence
  \<open>_check_AR_DataArray_dimnames\<close> (each argument \<open>None\<close> or a DataArray) returns exactly
  when a given dynamic array and a given bc array have the dimensions \<open>'time'\<close>, \<open>'node'\<close>
  and \<open>'feature'\<close> and a given static array has \<open>'node'\<close> and \<open>'feature'\<close>; no \<open>'time'\<close>
  is asked of the static array. When it does not return it raises ValueError.
\<close>

theorem check_dimnames_DataArray_required:
  "((\<exists>m as. check_dimnames_DataArray (Obj da) (Obj required_dimnames) (Obj da_name)
             = Inl (Raise ValueError m as))
      \<longleftrightarrow> (\<exists>r \<in> set required_dimnames. r \<notin> set (dims da)))
   \<and> ((check_dimnames_DataArray (Obj da) (Obj required_dimnames) (Obj da_name) = Inr ())
      \<longleftrightarrow> set required_dimnames \<subseteq> set (dims da))
   \<and> (da_dynamic \<noteq> Other \<and> da_bc \<noteq> Other \<and> da_static \<noteq> Other \<longrightarrow>
       ((check_AR_DataArray_dimnames da_dynamic da_bc da_static = Inr ())
        \<longleftrightarrow> (\<forall>d. da_dynamic = Obj d \<longrightarrow> {''time'', ''node'', ''feature''} \<subseteq> set (dims d))
            \<and> (\<forall>d. da_bc = Obj d \<longrightarrow> {''time'', ''node'', ''feature''} \<subseteq> set (dims d))
            \<and> (\<forall>d. da_static = Obj d \<longrightarrow> {''node'', ''feature''} \<subseteq> set (dims d)))
       \<and> (check_AR_DataArray_dimnames da_dynamic da_bc da_static = Inr ()
            \<or> (\<exists>m as. check_AR_DataArray_dimnames da_dynamic da_bc da_static
                         = Inl (Raise ValueError m as))))"
proof (intro conjI impI)
  show "(check_AR_DataArray_dimnames da_dynamic da_bc da_static = Inr ())
        \<longleftrightarrow> (\<forall>d. da_dynamic = Obj d \<longrightarrow> {''time'', ''node'', ''feature''} \<subseteq> set (dims d))
            \<and> (\<forall>d. da_bc = Obj d \<longrightarrow> {''time'', ''node'', ''feature''} \<subseteq> set (dims d))
            \<and> (\<forall>d. da_static = Obj d \<longrightarrow> {''node'', ''feature''} \<subseteq> set (dims d))"
    if "da_dynamic \<noteq> Other \<and> da_bc \<noteq> Other \<and> da_static \<noteq> Other"
    using that
    by (cases da_dynamic; cases da_bc; cases da_static)
       (auto simp: check_dimnames_DataArray_Obj check_AR_DataArray_dimnames_def and_then_Inr_iff)
  show "check_AR_DataArray_dimnames da_dynamic da_bc da_static = Inr ()
            \<or> (\<exists>m as. check_AR_DataArray_dimnames da_dynamic da_bc da_static
                         = Inl (Raise ValueError m as))"
    if "da_dynamic \<noteq> Other \<and> da_bc \<noteq> Other \<and> da_static \<noteq> Other"
    using that
    by (cases da_dynamic; cases da_bc; cases da_static)
       (simp_all add: check_dimnames_DataArray_Obj check_AR_DataArray_dimnames_def)
qed (auto simp: check_dimnames_DataArray_Obj)

theorem check_dimnames_DataArray_required_witness:
  "check_AR_DataArray_dimnames
     (Obj \<lparr>axes = [(''time'', Datetime64Array [0, 1]), (''node'', IntArray [0, 1]),
                   (''feature'', StrArray [''z500''])]\<rparr>)
     PyNone
     (Obj \<lparr>axes = [(''node'', IntArray [0, 1]), (''feature'', StrArray [''orog''])]\<rparr>) = Inr ()
   \<and> (\<exists>m as. check_dimnames_DataArray
          (Obj \<lparr>axes = [(''node'', IntArray [0, 1]), (''feature'', StrArray [''orog''])]\<rparr>)
          (Obj [''time'', ''node'', ''feature'']) (Obj ''bc DataArray'')
        = Inl (Raise ValueError m as))"
  using check_dimnames_DataArray_required
    [of "\<lparr>axes = [(''node'', IntArray [0, 1]), (''feature'', StrArray [''orog''])]\<rparr>"
        "[''time'', ''node'', ''feature'']" "''bc DataArray''"
        "Obj \<lparr>axes = [(''time'', Datetime64Array [0, 1]), (''node'', IntArray [0, 1]),
                   (''feature'', StrArray [''z500''])]\<rparr>"
        PyNone
        "Obj \<lparr>axes = [(''node'', IntArray [0, 1]), (''feature'', StrArray [''orog''])]\<rparr>"]
  by (simp add: dims_def)

subsection \<open>Dimension information\<close>

lemma comprehension_Inr_iff:
  "comprehension f xs = Inr ys \<longleftrightarrow> list_all2 (\<lambda>x y. f x = Inr y) xs ys"
proof (induction xs arbitrary: ys)
  case Nil
  then show ?case by auto
next
  case (Cons x xs)
  show ?case
    by (cases ys) (auto simp: Cons.IH [symmetric] split: sum.splits)
qed


lemma comprehension_total:
  "(\<exists>ys. comprehension f xs = Inr ys) \<longleftrightarrow> (\<forall>x \<in> set xs. \<exists>y. f x = Inr y)"
  by (induction xs) (auto split: sum.splits)

lemma dict_getitem_Inr_iff: "(\<exists>v. dict_getitem d k = Inr v) \<longleftrightarrow> k \<in> fst ` set d"
proof (cases "map_of d k")
  case None
  then have "k \<notin> fst ` set d"
    by (simp add: map_of_eq_None_iff)
  with None show ?thesis
    by (simp add: dict_getitem_def)
next
  case (Some v)
  then have "k \<in> fst ` set d"
    by (metis map_of_eq_None_iff option.distinct(1))
  with Some show ?thesis
    by (simp add: dict_getitem_def)
qed


lemma optional_variables_None [simp]: "optional_variables PyNone req nm = Inr (None, [])"
  by (simp add: optional_variables_def)

lemma optional_variables_Obj:
  "set req \<subseteq> set (dims d) \<Longrightarrow> getitem d ''feature'' = Inr f \<Longrightarrow>
   optional_variables (Obj d) req nm = Inr (Some (dims d), tolist f)"
  by (simp add: optional_variables_def check_dimnames_DataArray_Obj)



text \<open>
  Claim C2 says that \<open>output_shape\<close> holds the output sizes. On the example arrays, with
  three input steps and one output step, the output sizes in the order of
  \<open>dim_order[1:]\<close> are \<open>(1, 2, 2)\<close>; the function returns \<open>output_shape = (3, 2, 4)\<close>,
  the input shape, since line 380 reads \<open>dim_input\<close> where \<open>dim_output\<close> was built.
\<close>

theorem output_shape_is_input_shape:
  "get_AR_model_diminfo (Obj dynamic_example) (Obj static_example) (Obj bc_example)
     (Some settings_example)
   = Inr \<lparr> input_feature_dim = 4, output_feature_dim = 2,
           input_features = [PyStr ''orog'', PyStr ''tisr'', PyStr ''z500'', PyStr ''t850''],
           output_features = [PyStr ''z500'', PyStr ''t850''],
           input_time_dim = Some 3, output_time_dim = Some 1,
           input_node_dim = 2, output_node_dim = 2,
           dim_order = [''sample'', ''time'', ''node'', ''feature''],
           input_shape = Some [3, 2, 4],
           output_shape = Some [3, 2, 4] \<rparr>"
  by (simp add: get_AR_model_diminfo_def check_dimnames_DataArray_def missing_dims_def
      optional_variables_def getitem_def dict_getitem_def dims_def Let_def
      dynamic_example_def static_example_def bc_example_def settings_example_def)

text \<open>With \<open>AR_settings\<close>, the two shapes of a returned record are always the same list.\<close>

lemma get_AR_model_diminfo_shapes_equal:
  "get_AR_model_diminfo da_dynamic da_static da_bc (Some s) = Inr info \<Longrightarrow>
   output_shape info = input_shape info"
  by (auto simp: get_AR_model_diminfo_def Let_def and_then_Inr_iff
      split: arg.splits if_splits prod.splits)

subsection \<open>Finite values\<close>

lemma vars_with_empty:
  "vars_with p vs = [] \<longleftrightarrow> (\<forall>(var, xs) \<in> set vs. \<forall>x \<in> set xs. \<not> p x)"
  by (auto simp: vars_with_def filter_empty_conv)

lemma vars_with_set:
  "set (vars_with p vs) = {var. \<exists>xs. (var, xs) \<in> set vs \<and> (\<exists>x \<in> set xs. p x)}"
  by (force simp: vars_with_def filter_empty_conv)

text \<open>
  Claim C4. For a Dataset, \<open>check_finite_Dataset\<close> raises ValueError if and only if some
  data variable holds a NaN or an infinite value, and returns when every value of every
  variable is finite. When a NaN occurs the error raised is the one of the NaN check,
  whether or not infinite values occur as well: the NaN check runs first. An argument
  that is not a Dataset raises TypeError.
\<close>

theorem check_finite_Dataset_raises:
  "((\<exists>m as. check_finite_Dataset (Obj ds) = Inl (Raise ValueError m as))
      \<longleftrightarrow> (\<exists>(var, xs) \<in> set (data_vars ds). \<exists>x \<in> set xs. isnan x \<or> isinf x))
   \<and> ((check_finite_Dataset (Obj ds) = Inr ())
      \<longleftrightarrow> (\<forall>(var, xs) \<in> set (data_vars ds). \<forall>x \<in> set xs. \<not> isnan x \<and> \<not> isinf x))
   \<and> ((\<exists>(var, xs) \<in> set (data_vars ds). \<exists>x \<in> set xs. isnan x)
      \<longrightarrow> check_finite_Dataset (Obj ds)
          = Inl (Raise ValueError ''The variables {} contain NaN values''
                   (vars_with isnan (data_vars ds))))
   \<and> (\<exists>m. check_finite_Dataset PyNone = Inl (Raise TypeError m []))
   \<and> (\<exists>m. check_finite_Dataset Other = Inl (Raise TypeError m []))"
  by (auto simp: check_finite_Dataset_def Let_def vars_with_empty)

theorem check_finite_Dataset_raises_witness:
  "check_finite_Dataset
     (Obj \<lparr>ds_axes = [(''node'', IntArray [0, 1])],
           data_vars = [(''z500'', [Finite 1, PosInf]), (''t850'', [NaN, Finite 2])]\<rparr>)
   = Inl (Raise ValueError ''The variables {} contain NaN values'' [''t850''])
   \<and> check_finite_Dataset
     (Obj \<lparr>ds_axes = [(''node'', IntArray [0, 1])],
           data_vars = [(''z500'', [Finite 1, Finite 3]), (''t850'', [Finite 0, Finite 2])]\<rparr>)
   = Inr ()"
  using check_finite_Dataset_raises
    [of "\<lparr>ds_axes = [(''node'', IntArray [0, 1])],
           data_vars = [(''z500'', [Finite 1, PosInf]), (''t850'', [NaN, Finite 2])]\<rparr>"]
    check_finite_Dataset_raises
    [of "\<lparr>ds_axes = [(''node'', IntArray [0, 1])],
           data_vars = [(''z500'', [Finite 1, Finite 3]), (''t850'', [Finite 0, Finite 2])]\<rparr>"]
  by (simp add: vars_with_def)

subsection \<open>The time axis\<close>

lemma length_datetimes_of:
  "list_all is_datetime xs \<Longrightarrow> length (datetimes_of xs) = length xs"
  by (induction xs rule: datetimes_of.induct) simp_all

lemma check_timesteps_nonempty: "check_timesteps timesteps = Inr ts \<Longrightarrow> ts \<noteq> []"
  by (cases timesteps)
     (auto simp: check_timesteps_def and_then_Inr_iff
       split: option.splits if_splits ndarray.splits dest: length_datetimes_of)

lemma length_np_diff: "length (np_diff ts) = length ts - 1"
  by (induction ts rule: np_diff.induct) simp_all

lemma np_diff_nth: "Suc i < length ts \<Longrightarrow> np_diff ts ! i = ts ! Suc i - ts ! i"
proof (induction ts arbitrary: i rule: np_diff.induct)
  case (1 x y xs)
  then show ?case
    by (cases i) simp_all
qed simp_all

lemma index_slice:
  assumes "Suc bad_idx < length ts"
  shows "index (take 2 (drop bad_idx ts)) 0 = Inr (ts ! bad_idx)"
    and "index (take 2 (drop bad_idx ts)) (Suc 0) = Inr (ts ! Suc bad_idx)"
  using assms by (simp_all add: index_def)

lemma missing_between_returns:
  "\<exists>pairs. missing_between ts (np_diff ts) dts counts = Inr pairs"
proof -
  have inner: "\<exists>p. and_then (index (take 2 (drop i ts)) 0) (\<lambda>t0.
                     and_then (index (take 2 (drop i ts)) 1) (\<lambda>t1. Inr (t0, t1))) = Inr p"
    if "i < length (np_diff ts)" for i
  proof -
    from that have "Suc i < length ts"
      by (simp add: length_np_diff)
    then show ?thesis
      by (simp add: index_slice)
  qed
  have "\<exists>ys. comprehension (\<lambda>bad_idx.
           and_then (index (take 2 (drop bad_idx ts)) 0) (\<lambda>t0.
           and_then (index (take 2 (drop bad_idx ts)) 1) (\<lambda>t1. Inr (t0, t1))))
         (filter P [0 ..< length (np_diff ts)]) = Inr ys" for P
    unfolding comprehension_total using inner by simp
  then show ?thesis
    unfolding missing_between_def Let_def comprehension_total [of _ "map fst _"]
    by blast
qed

lemma length_np_unique:
  "np_unique dt = (dts, counts) \<Longrightarrow> length counts = card (set dt)"
  by (auto simp: np_unique_def Let_def length_remdups_card_conv)

lemma two_distinct_iff:
  "1 < card (set dt) \<longleftrightarrow> (\<exists>i j. i < length dt \<and> j < length dt \<and> dt ! i \<noteq> dt ! j)"
proof -
  have "1 < card (set dt) \<longleftrightarrow> \<not> card (set dt) \<le> Suc 0"
    by auto
  also have "\<dots> \<longleftrightarrow> \<not> (\<forall>a \<in> set dt. \<forall>b \<in> set dt. a = b)"
    by (simp add: card_le_Suc0_iff_eq)
  also have "\<dots> \<longleftrightarrow> (\<exists>i j. i < length dt \<and> j < length dt \<and> dt ! i \<noteq> dt ! j)"
  proof
    assume "\<not> (\<forall>a \<in> set dt. \<forall>b \<in> set dt. a = b)"
    then obtain a b where "a \<in> set dt" "b \<in> set dt" "a \<noteq> b"
      by blast
    then obtain i j where "i < length dt" "dt ! i = a" "j < length dt" "dt ! j = b"
      by (auto simp: in_set_conv_nth)
    with \<open>a \<noteq> b\<close> have "i < length dt \<and> j < length dt \<and> dt ! i \<noteq> dt ! j"
      by simp
    then show "\<exists>i j. i < length dt \<and> j < length dt \<and> dt ! i \<noteq> dt ! j"
      by blast
  next
    assume "\<exists>i j. i < length dt \<and> j < length dt \<and> dt ! i \<noteq> dt ! j"
    then obtain i j where "i < length dt" "j < length dt" "dt ! i \<noteq> dt ! j"
      by blast
    then have "dt ! i \<in> set dt" "dt ! j \<in> set dt" "dt ! i \<noteq> dt ! j"
      by simp_all
    then show "\<not> (\<forall>a \<in> set dt. \<forall>b \<in> set dt. a = b)"
      by blast
  qed
  finally show ?thesis .
qed

lemma gaps_iff:
  "1 < card (set (np_diff ts))
   \<longleftrightarrow> (\<exists>i j. Suc i < length ts \<and> Suc j < length ts
              \<and> ts ! Suc i - ts ! i \<noteq> ts ! Suc j - ts ! j)"
proof -
  have len: "i < length (np_diff ts) \<longleftrightarrow> Suc i < length ts" for i
    by (simp add: length_np_diff less_diff_conv)
  have "(\<exists>i j. i < length (np_diff ts) \<and> j < length (np_diff ts)
           \<and> np_diff ts ! i \<noteq> np_diff ts ! j)
      \<longleftrightarrow> (\<exists>i j. Suc i < length ts \<and> Suc j < length ts
              \<and> ts ! Suc i - ts ! i \<noteq> ts ! Suc j - ts ! j)"
  proof
    assume "\<exists>i j. i < length (np_diff ts) \<and> j < length (np_diff ts)
           \<and> np_diff ts ! i \<noteq> np_diff ts ! j"
    then obtain i j where "Suc i < length ts" "Suc j < length ts"
        "np_diff ts ! i \<noteq> np_diff ts ! j"
      unfolding len by blast
    then have "Suc i < length ts \<and> Suc j < length ts
        \<and> ts ! Suc i - ts ! i \<noteq> ts ! Suc j - ts ! j"
      by (simp add: np_diff_nth)
    then show "\<exists>i j. Suc i < length ts \<and> Suc j < length ts
              \<and> ts ! Suc i - ts ! i \<noteq> ts ! Suc j - ts ! j"
      by blast
  next
    assume "\<exists>i j. Suc i < length ts \<and> Suc j < length ts
              \<and> ts ! Suc i - ts ! i \<noteq> ts ! Suc j - ts ! j"
    then obtain i j where ij: "Suc i < length ts" "Suc j < length ts"
        "ts ! Suc i - ts ! i \<noteq> ts ! Suc j - ts ! j"
      by blast
    then have "i < length (np_diff ts) \<and> j < length (np_diff ts)
        \<and> np_diff ts ! i \<noteq> np_diff ts ! j"
      by (simp add: np_diff_nth len)
    then show "\<exists>i j. i < length (np_diff ts) \<and> j < length (np_diff ts)
           \<and> np_diff ts ! i \<noteq> np_diff ts ! j"
      by blast
  qed
  then show ?thesis
    by (simp only: two_distinct_iff)
qed

lemma check_no_missing_timesteps_result:
  assumes "check_timesteps timesteps = Inr ts"
  shows "check_no_missing_timesteps timesteps verbose =
     (if \<exists>i j. Suc i < length ts \<and> Suc j < length ts
              \<and> ts ! Suc i - ts ! i \<noteq> ts ! Suc j - ts ! j
      then Inl (Raise ValueError ''The process has been interrupted'' [])
      else Inr ())"
proof -
  obtain dts counts where u: "np_unique (np_diff ts) = (dts, counts)"
    by (cases "np_unique (np_diff ts)")
  obtain pairs where m: "missing_between ts (np_diff ts) dts counts = Inr pairs"
    using missing_between_returns by blast
  have ne: "ts \<noteq> []"
    using assms by (rule check_timesteps_nonempty)
  have "length counts > 1 \<longleftrightarrow> (\<exists>i j. Suc i < length ts \<and> Suc j < length ts
              \<and> ts ! Suc i - ts ! i \<noteq> ts ! Suc j - ts ! j)"
    unfolding length_np_unique [OF u] by (rule gaps_iff)
  moreover have "check_no_missing_timesteps timesteps verbose =
     (if length counts > 1
      then Inl (Raise ValueError ''The process has been interrupted'' [])
      else Inr ())"
    using assms u m ne by (simp add: check_no_missing_timesteps_def)
  ultimately show ?thesis
    by (simp only:)
qed



text \<open>
  Claim C10 says that a single datetime becomes a one-element array. The length test of
  line 26 runs before the class test of line 28, and \<open>len\<close> of a \<open>np.datetime64\<close> or a
  \<open>datetime.datetime\<close> raises TypeError: the branch of lines 28 to 30 is never reached.
\<close>

theorem check_timesteps_single_datetime:
  "check_timesteps (TsDatetime t)
   = Inl (Raise TypeError ''object of type '{}' has no len()'' [])"
  by (simp add: check_timesteps_def)

text \<open>
  The rest of that claim holds: an array that \<open>_check_timesteps\<close> returns is not empty
  (\<open>check_timesteps_nonempty\<close>), a string that numpy parses gives a one-element array, and
  the error \<open>'No data available !'\<close> of \<open>check_no_missing_timesteps\<close> is never raised.
\<close>

lemma check_timesteps_str: "check_timesteps (TsStr s (Some t)) = Inr [t]"
  by (simp add: check_timesteps_def)

lemma No_data_unreachable:
  "check_no_missing_timesteps timesteps verbose
   \<noteq> Inl (Raise ValueError ''No data available !'' [])"
proof (cases "check_timesteps timesteps")
  case (Inl e)
  then have "e \<noteq> Raise ValueError ''No data available !'' []"
    by (cases timesteps)
       (auto simp: check_timesteps_def and_then_def
         split: option.splits if_splits ndarray.splits sum.splits
         elim!: py_len.elims)
  with Inl show ?thesis
    by (simp add: check_no_missing_timesteps_def)
next
  case (Inr ts)
  then show ?thesis
    by (simp add: check_no_missing_timesteps_result)
qed

subsection \<open>Training and validation arrays\<close>

lemma raises_Inl [simp]: "raises c (Inl e) \<longleftrightarrow> exc_of e = c"
  by (simp add: raises_def)

lemma raises_Inr [simp]: "\<not> raises c (Inr x)"
  by (simp add: raises_def)


lemma and_then_raises:
  assumes "m = Inr () \<or> raises c m" and "raises c (f ())"
  shows "raises c (and_then m f)"
  using assms by (cases m) (auto simp: raises_def)

lemma and_then_returns_or_raises:
  assumes "m = Inr () \<or> raises c m" and "f () = Inr () \<or> raises c (f ())"
  shows "and_then m f = Inr () \<or> raises c (and_then m f)"
  using assms by (cases m) (auto simp: raises_def)

lemma check_timesteps_TsArray:
  "(\<exists>ts. check_timesteps (TsArray a) = Inr ts) \<or> raises ValueError (check_timesteps (TsArray a))"
  by (cases a) (simp_all add: check_timesteps_def)

lemma check_no_missing_timesteps_TsArray:
  "check_no_missing_timesteps (TsArray a) verbose = Inr ()
   \<or> raises ValueError (check_no_missing_timesteps (TsArray a) verbose)"
proof (cases "check_timesteps (TsArray a)")
  case (Inl e)
  with check_timesteps_TsArray [of a] show ?thesis
    by (simp add: check_no_missing_timesteps_def)
next
  case (Inr ts)
  then show ?thesis
    by (simp add: check_no_missing_timesteps_result)
qed

lemma time_values_Obj:
  "''time'' \<in> set (dims d) \<Longrightarrow> \<exists>t. time_values (Obj d) = Inr t"
  by (simp add: time_values_def getitem_dim)

lemma time_step:
  assumes "da = PyNone \<or> (\<exists>d. da = Obj d \<and> ''time'' \<in> set (dims d))"
  shows "(if \<not> is_None da
          then and_then (time_values da) (\<lambda>t. check_no_missing_timesteps (TsArray t) verbose)
          else Inr ()) = Inr ()
       \<or> raises ValueError
          (if \<not> is_None da
           then and_then (time_values da) (\<lambda>t. check_no_missing_timesteps (TsArray t) verbose)
           else Inr ())"
  using assms
proof
  assume "da = PyNone"
  then show ?thesis by simp
next
  assume "\<exists>d. da = Obj d \<and> ''time'' \<in> set (dims d)"
  then obtain d t where "da = Obj d" "time_values (Obj d) = Inr t"
    using time_values_Obj by blast
  then show ?thesis
    using check_no_missing_timesteps_TsArray [of t verbose] by simp
qed






lemma time_step_Obj:
  assumes "''time'' \<in> set (dims d)"
  shows "and_then (time_values (Obj d)) (\<lambda>t. check_no_missing_timesteps (TsArray t) verbose)
           = Inr ()
       \<or> raises ValueError
           (and_then (time_values (Obj d)) (\<lambda>t. check_no_missing_timesteps (TsArray t) verbose))"
proof -
  from assms obtain t where "time_values (Obj d) = Inr t"
    using time_values_Obj by blast
  then show ?thesis
    using check_no_missing_timesteps_TsArray [of t verbose] by simp
qed




lemma check_no_missing_timesteps_examples:
  "check_no_missing_timesteps (TsArray (Datetime64Array [0])) v = Inr ()"
  "check_no_missing_timesteps (TsArray (Datetime64Array [0, 0])) v = Inr ()"
  "check_no_missing_timesteps (TsArray (Datetime64Array [0, 6])) v = Inr ()"
  "check_no_missing_timesteps (TsArray (Datetime64Array [0, 6, 12])) v = Inr ()"
  "check_no_missing_timesteps (TsArray (Datetime64Array [18, 24, 30])) v = Inr ()"
  by (simp_all add: check_no_missing_timesteps_def check_timesteps_def np_unique_def)




subsection \<open>Alignment of the time axes\<close>

text \<open>
  Claim C5 says that ValueError is raised whenever the time coordinates of the dynamic
  and of the bc array are not all equal. A dynamic array with the single timestep
  \<open>[0]\<close> and boundary conditions with the timesteps \<open>[0, 0]\<close> pass every check: the
  repeated timestep is evenly spaced, and \<open>==\<close> broadcasts the array of length one, so
  that \<open>np.all\<close> (and \<open>all\<close>) see only \<open>True\<close>. Both functions return, with either
  numpy. With the numpy of before 1.25, \<open>check_AR_Datasets\<close> on time axes of lengths
  two and three raises TypeError, not ValueError.
\<close>

theorem alignment_check_broadcasts:
  "check_AR_DataArrays Legacy (Obj single_step_example) PyNone (Obj repeated_step_example)
     PyNone PyNone False = Inr ()
   \<and> check_AR_DataArrays Modern (Obj single_step_example) PyNone (Obj repeated_step_example)
     PyNone PyNone False = Inr ()
   \<and> check_AR_Datasets Legacy (Obj ds_single_step_example) PyNone PyNone
     (Obj ds_repeated_step_example) PyNone False = Inr ()
   \<and> check_AR_Datasets Modern (Obj ds_single_step_example) PyNone PyNone
     (Obj ds_repeated_step_example) PyNone False = Inr ()
   \<and> check_AR_Datasets Legacy (Obj ds_two_steps_example) PyNone PyNone
     (Obj ds_three_steps_example) PyNone False
     = Inl (Raise TypeError '''bool' object is not iterable'' [])"
proof (intro conjI)
  show "check_AR_DataArrays Legacy (Obj single_step_example) PyNone (Obj repeated_step_example)
     PyNone PyNone False = Inr ()"
    by (simp add: check_AR_DataArrays_def check_AR_DataArray_dimnames_def
        check_dimnames_DataArray_def missing_dims_def dims_def time_values_def getitem_def
        check_no_missing_timesteps_examples np_eq_def
        single_step_example_def repeated_step_example_def)
  show "check_AR_DataArrays Modern (Obj single_step_example) PyNone (Obj repeated_step_example)
     PyNone PyNone False = Inr ()"
    by (simp add: check_AR_DataArrays_def check_AR_DataArray_dimnames_def
        check_dimnames_DataArray_def missing_dims_def dims_def time_values_def getitem_def
        check_no_missing_timesteps_examples np_eq_def
        single_step_example_def repeated_step_example_def)
  show "check_AR_Datasets Legacy (Obj ds_single_step_example) PyNone PyNone
     (Obj ds_repeated_step_example) PyNone False = Inr ()"
    by (simp add: check_AR_Datasets_def check_AR_Dataset_dimnames_def
        check_dimnames_Dataset_def missing_dims_def ds_dims_def ds_time_values_def ds_getitem_def
        check_no_missing_timesteps_examples np_eq_def
        ds_single_step_example_def ds_repeated_step_example_def)
  show "check_AR_Datasets Modern (Obj ds_single_step_example) PyNone PyNone
     (Obj ds_repeated_step_example) PyNone False = Inr ()"
    by (simp add: check_AR_Datasets_def check_AR_Dataset_dimnames_def
        check_dimnames_Dataset_def missing_dims_def ds_dims_def ds_time_values_def ds_getitem_def
        check_no_missing_timesteps_examples np_eq_def
        ds_single_step_example_def ds_repeated_step_example_def)
  show "check_AR_Datasets Legacy (Obj ds_two_steps_example) PyNone PyNone
     (Obj ds_three_steps_example) PyNone False
     = Inl (Raise TypeError '''bool' object is not iterable'' [])"
    by (simp add: check_AR_Datasets_def check_AR_Dataset_dimnames_def
        check_dimnames_Dataset_def missing_dims_def ds_dims_def ds_time_values_def ds_getitem_def
        check_no_missing_timesteps_examples np_eq_def
        ds_two_steps_example_def ds_three_steps_example_def)
qed

text \<open>
  On time axes of the same length the check of \<open>check_AR_DataArrays\<close> is the
  comparison element by element: axes that differ raise ValueError.
\<close>

lemma all_equal_zip:
  "length a = length b \<Longrightarrow> list_all (\<lambda>b. b) (map (\<lambda>(x, y). x = y) (zip a b)) \<longleftrightarrow> a = b"
  by (induction a b rule: list_induct2) simp_all

lemma np_all_np_eq_same_length:
  "length a = length b \<Longrightarrow> np_eq np a b = Inr c \<Longrightarrow> np_all c \<longleftrightarrow> a = b"
  by (auto simp: np_eq_def all_equal_zip)

lemma raises_and_then: "raises c m \<Longrightarrow> raises c (and_then m f)"
  by (cases m) simp_all

lemma check_AR_DataArray_dimnames_result:
  assumes "da \<noteq> Other" "bc \<noteq> Other" "st \<noteq> Other"
  shows "(check_AR_DataArray_dimnames da bc st = Inr ()
          \<and> (da = PyNone \<or> (\<exists>d. da = Obj d \<and> ''time'' \<in> set (dims d)))
          \<and> (bc = PyNone \<or> (\<exists>d. bc = Obj d \<and> ''time'' \<in> set (dims d))))
       \<or> raises ValueError (check_AR_DataArray_dimnames da bc st)"
  using assms
  by (cases da; cases bc; cases st)
     (auto simp: check_AR_DataArray_dimnames_def check_dimnames_DataArray_Obj)

lemma np_all_differ:
  assumes "length a = length b" "a \<noteq> b"
  shows "raises ValueError
     (and_then (np_eq np a b) (\<lambda>same.
        let all_same_timesteps = np_all same in
        if \<not> all_same_timesteps then Inl (Raise ValueError msg []) else Inr ()))"
  using assms by (simp add: np_eq_def all_equal_zip)

lemma length_tolist [simp]: "length (tolist a) = len_ndarray a"
  by (cases a) simp_all

lemma check_AR_DataArrays_misaligned:
  assumes types: "val \<noteq> Other" "val_bc \<noteq> Other" "static \<noteq> Other"
    and ta: "time_values (Obj d) = Inr ta" and tb: "time_values (Obj b) = Inr tb"
    and len: "len_ndarray ta = len_ndarray tb" and ne: "tolist ta \<noteq> tolist tb"
  shows "raises ValueError (check_AR_DataArrays np (Obj d) val (Obj b) val_bc static verbose)"
proof (cases "\<not> is_None val_bc \<and> \<not> isinstance val")
  case True
  then show ?thesis
    by (simp add: check_AR_DataArrays_def)
next
  case False
  note guard = this
  from check_AR_DataArray_dimnames_result [of "Obj d" "Obj b" static] types
  consider (bad) "raises ValueError (check_AR_DataArray_dimnames (Obj d) (Obj b) static)"
    | (good) "check_AR_DataArray_dimnames (Obj d) (Obj b) static = Inr ()"
        "''time'' \<in> set (dims d)" "''time'' \<in> set (dims b)"
    by auto
  then show ?thesis
  proof cases
    case bad
    then show ?thesis
      using guard by (simp add: check_AR_DataArrays_def raises_and_then)
  next
    case good
    from check_AR_DataArray_dimnames_result [of val val_bc static] types
    consider (bad2) "raises ValueError (check_AR_DataArray_dimnames val val_bc static)"
      | (good2) "check_AR_DataArray_dimnames val val_bc static = Inr ()"
          "val = PyNone \<or> (\<exists>d. val = Obj d \<and> ''time'' \<in> set (dims d))"
          "val_bc = PyNone \<or> (\<exists>d. val_bc = Obj d \<and> ''time'' \<in> set (dims d))"
      by auto
    then show ?thesis
    proof cases
      case bad2
      then show ?thesis
        using guard good by (simp add: check_AR_DataArrays_def raises_and_then)
    next
      case good2
      have bt: "Obj b = PyNone \<or> (\<exists>d. Obj b = Obj d \<and> ''time'' \<in> set (dims d))"
        using good by simp
      have align: "raises ValueError
        (and_then (time_values (Obj d)) (\<lambda>a.
           and_then (time_values (Obj b)) (\<lambda>b.
           and_then (np_eq np (tolist a) (tolist b)) (\<lambda>same.
           let all_same_timesteps = np_all same in
           if \<not> all_same_timesteps then Inl (Raise ValueError msg []) else Inr ()))))" for msg
        using np_all_differ [of "tolist ta" "tolist tb" np msg] len ne
        by (simp add: ta tb)
      show ?thesis
        unfolding check_AR_DataArrays_def
        using guard
        apply (simp only: isinstance.simps is_None.simps not_True_eq_False simp_thms if_False
            if_True good good2 and_then_Inr)
        apply (rule and_then_raises)
         apply simp
        apply (rule and_then_raises)
         apply (rule time_step_Obj [OF good(2)])
        apply (rule and_then_raises)
         apply (rule time_step [OF good2(2)])
        apply (rule and_then_raises)
         apply (rule time_step_Obj [OF good(3)])
        apply (rule and_then_raises)
         apply (rule time_step [OF good2(3)])
        apply (rule raises_and_then)
        apply (rule align)
        done
    qed
  qed
qed

subsection \<open>The tutorial script\<close>







subsection \<open>Dimension information with AR settings\<close>

text \<open>
  With \<open>AR_settings\<close> holding \<open>'input_k'\<close> and \<open>'output_k'\<close>, and a dynamic array whose
  dimensions are exactly \<open>'time'\<close>, \<open>'node'\<close> and \<open>'feature'\<close>, the call returns: the
  KeyError of the shape-building part needs a missing key or a further dimension.
\<close>

lemma optional_variables_returns:
  assumes "set req \<subseteq> set (dims d)" "''feature'' \<in> set (dims d)"
  shows "\<exists>vs. optional_variables (Obj d) req nm = Inr (Some (dims d), vs)"
proof -
  from assms(2) obtain f where "getitem d ''feature'' = Inr f"
    using getitem_dim by blast
  with assms(1) show ?thesis
    by (simp add: optional_variables_Obj)
qed

lemma get_AR_model_diminfo_returns:
  assumes dyn: "set (dims dyn) = {''time'', ''node'', ''feature''}"
    and st: "da_static = PyNone
       \<or> (\<exists>st. da_static = Obj st \<and> {''node'', ''feature''} \<subseteq> set (dims st))"
    and bc: "da_bc = PyNone
       \<or> (\<exists>bc. da_bc = Obj bc \<and> {''time'', ''node'', ''feature''} \<subseteq> set (dims bc)
             \<and> dims bc = dims dyn)"
    and s: "''input_k'' \<in> fst ` set settings" "''output_k'' \<in> fst ` set settings"
  shows "\<exists>info. get_AR_model_diminfo (Obj dyn) da_static da_bc (Some settings) = Inr info"
proof -
  obtain f node where f: "getitem dyn ''feature'' = Inr f" and n: "getitem dyn ''node'' = Inr node"
    using dyn getitem_dim [of "''feature''" dyn] getitem_dim [of "''node''" dyn] by auto
  have "\<exists>r1. optional_variables da_static [''node'', ''feature''] ''static DataArray'' = Inr r1"
    using st
  proof
    assume "da_static = PyNone"
    then show ?thesis by simp
  next
    assume "\<exists>st. da_static = Obj st \<and> {''node'', ''feature''} \<subseteq> set (dims st)"
    then obtain d where "da_static = Obj d" "set [''node'', ''feature''] \<subseteq> set (dims d)"
      "''feature'' \<in> set (dims d)"
      by auto
    then show ?thesis
      using optional_variables_returns [of "[''node'', ''feature'']" d "''static DataArray''"]
      by blast
  qed
  then obtain r1 where r1:
    "optional_variables da_static [''node'', ''feature''] ''static DataArray'' = Inr r1"
    by blast
  have "\<exists>v2. optional_variables da_bc [''time'', ''node'', ''feature''] ''bc DataArray''
       = Inr (if da_bc = PyNone then None else Some (dims dyn), v2)"
    using bc
  proof
    assume "da_bc = PyNone"
    then show ?thesis by simp
  next
    assume "\<exists>bc. da_bc = Obj bc \<and> {''time'', ''node'', ''feature''} \<subseteq> set (dims bc)
             \<and> dims bc = dims dyn"
    then obtain d where d: "da_bc = Obj d" "set [''time'', ''node'', ''feature''] \<subseteq> set (dims d)"
      "''feature'' \<in> set (dims d)" "dims d = dims dyn"
      by auto
    from optional_variables_returns [OF d(2) d(3), of "''bc DataArray''"] d(1) d(4)
    show ?thesis
      by simp
  qed
  then obtain v2 where r2:
    "optional_variables da_bc [''time'', ''node'', ''feature''] ''bc DataArray''
       = Inr (if da_bc = PyNone then None else Some (dims dyn), v2)"
    by blast
  obtain ik ok where k: "dict_getitem settings ''input_k'' = Inr ik"
      "dict_getitem settings ''output_k'' = Inr ok"
    using s dict_getitem_Inr_iff [of settings] by blast
  have shape: "\<exists>ys. comprehension (dict_getitem [(''node'', a), (''time'', b), (''feature'', c)])
      (dims dyn) = Inr ys" for a b c :: nat
  proof -
    have "\<exists>y. dict_getitem [(''node'', a), (''time'', b), (''feature'', c)] x = Inr y"
      if "x \<in> {''time'', ''node'', ''feature''}" for x
      using that by (auto simp: dict_getitem_def)
    then show ?thesis
      unfolding comprehension_total dyn by blast
  qed
  show ?thesis
  proof (cases r1)
    case (Pair d1 v1)
    obtain sh where sh': "comprehension (dict_getitem [(''node'', len_ndarray node),
       (''time'', length ik), (''feature'', length v1 + length v2 + len_ndarray f)])
      (dims dyn) = Inr sh"
      using shape by blast
    have sub: "set [''time'', ''node'', ''feature''] \<subseteq> set (dims dyn)"
      using dyn by simp
    show ?thesis
      unfolding get_AR_model_diminfo_def
      by (simp add: check_dimnames_DataArray_Obj sub f n r1 Pair r2 k sh' Let_def
          del: set_simps)
  qed
qed

end
